theory Spec2Isabelle
  imports Complex_Main "HOL-Library.AList"
begin

section \<open>JavaScript values\<close>

text \<open>
  A JavaScript number is a finite double, NaN or an infinity. Every finite double is a
  rational, and the operators the plural rules use (\<open>%\<close> by a non-zero integer literal,
  \<open>===\<close>, \<open><\<close>, \<open>>\<close>, \<open><=\<close>, \<open>>=\<close> against integer literals) are exact on doubles,
  so finite numbers are modelled by \<open>rat\<close>. Negative zero is identified with zero:
  the rules only compare.
\<close>

datatype jsnum = Fin rat | NaN | PosInf | NegInf

datatype jsval =
    JUndefined
  | JNull
  | JBool bool
  | JNum jsnum
  | JStr string
  | JArr "jsval list"
  | JObj "(string \<times> jsval) list"

text \<open>
  An object is the list of its own enumerable properties in enumeration order; a
  well-formed object has distinct keys. Inherited properties are not modelled.
\<close>

datatype error = TypeError

text \<open>What the program writes to the console or schedules for later, in order.\<close>

datatype effect =
    WarnPluralizationNotNumber
  | WarnPlaceholderNotFound string string
  | WarnPluralizationNotProvided
  | WarnLocaleNotSet string
  | NotFoundCallback string string string
  | ScheduleAddLocale string string jsval
  | WarnArrayNotStrings

type_synonym 'a result = "(error + 'a) \<times> effect list"

definition int_num :: "int \<Rightarrow> jsnum" where
  "int_num k = Fin (of_int k)"

definition typeof :: "jsval \<Rightarrow> string" where
  "typeof v = (case v of
      JUndefined \<Rightarrow> ''undefined''
    | JNull \<Rightarrow> ''object''
    | JBool _ \<Rightarrow> ''boolean''
    | JNum _ \<Rightarrow> ''number''
    | JStr _ \<Rightarrow> ''string''
    | JArr _ \<Rightarrow> ''object''
    | JObj _ \<Rightarrow> ''object'')"

definition truthy :: "jsval \<Rightarrow> bool" where
  "truthy v = (case v of
      JUndefined \<Rightarrow> False
    | JNull \<Rightarrow> False
    | JBool b \<Rightarrow> b
    | JNum n \<Rightarrow> (case n of Fin q \<Rightarrow> q \<noteq> 0 | NaN \<Rightarrow> False | _ \<Rightarrow> True)
    | JStr s \<Rightarrow> s \<noteq> []
    | JArr _ \<Rightarrow> True
    | JObj _ \<Rightarrow> True)"

text \<open>\<open>isArray(obj)\<close>: \<open>!!obj && Array === obj.constructor\<close>.\<close>

definition isArray :: "jsval \<Rightarrow> bool" where
  "isArray obj = (case obj of JArr _ \<Rightarrow> True | _ \<Rightarrow> False)"

subsection \<open>Number operators\<close>

definition trunc :: "rat \<Rightarrow> int" where
  "trunc q = (if 0 \<le> q then \<lfloor>q\<rfloor> else \<lceil>q\<rceil>)"

text \<open>\<open>n % d\<close> for an integer literal \<open>d\<close>: the remainder has the sign of \<open>n\<close>.\<close>

definition num_rem :: "jsnum \<Rightarrow> int \<Rightarrow> jsnum" where
  "num_rem n d = (case n of
      Fin q \<Rightarrow> Fin (q - of_int d * of_int (trunc (q / of_int d)))
    | _ \<Rightarrow> NaN)"

definition num_eq :: "jsnum \<Rightarrow> int \<Rightarrow> bool" where
  "num_eq n k = (case n of Fin q \<Rightarrow> q = of_int k | _ \<Rightarrow> False)"

definition num_lt :: "jsnum \<Rightarrow> int \<Rightarrow> bool" where
  "num_lt n k = (case n of Fin q \<Rightarrow> q < of_int k | NegInf \<Rightarrow> True | _ \<Rightarrow> False)"

definition num_gt :: "jsnum \<Rightarrow> int \<Rightarrow> bool" where
  "num_gt n k = (case n of Fin q \<Rightarrow> q > of_int k | PosInf \<Rightarrow> True | _ \<Rightarrow> False)"

definition num_le :: "jsnum \<Rightarrow> int \<Rightarrow> bool" where
  "num_le n k = (case n of Fin q \<Rightarrow> q \<le> of_int k | NegInf \<Rightarrow> True | _ \<Rightarrow> False)"

definition num_ge :: "jsnum \<Rightarrow> int \<Rightarrow> bool" where
  "num_ge n k = (case n of Fin q \<Rightarrow> q \<ge> of_int k | PosInf \<Rightarrow> True | _ \<Rightarrow> False)"

section \<open>Plural rules (\<open>plurals.getTranslationIndex\<close>)\<close>

definition one_form_codes :: "string list" where
  "one_form_codes = [''ay'', ''bo'', ''cgg'', ''dz'', ''fa'', ''id'', ''ja'', ''jbo'',
     ''ka'', ''kk'', ''km'', ''ko'', ''ky'', ''lo'', ''ms'', ''my'', ''sah'', ''su'',
     ''th'', ''tt'', ''ug'', ''vi'', ''wo'', ''zh'']"

definition french_codes :: "string list" where
  "french_codes = [''ach'', ''ak'', ''am'', ''arn'', ''br'', ''fil'', ''fr'', ''gun'',
     ''ln'', ''mfe'', ''mg'', ''mi'', ''oc'', ''pt_BR'', ''tg'', ''ti'', ''tr'', ''uz'',
     ''wa'', ''zh'']"

definition russian_codes :: "string list" where
  "russian_codes = [''be'', ''bs'', ''hr'', ''ru'', ''sr'', ''uk'']"

definition rule_is :: "jsnum \<Rightarrow> nat" where
  "rule_is n = (if \<not> num_eq (num_rem n 10) 1 \<or> num_eq (num_rem n 100) 11 then 1 else 0)"

definition rule_jv :: "jsnum \<Rightarrow> nat" where
  "rule_jv n = (if \<not> num_eq n 0 then 1 else 0)"

definition rule_mk :: "jsnum \<Rightarrow> nat" where
  "rule_mk n = (if num_eq n 1 \<or> num_eq (num_rem n 10) 1 then 0 else 1)"

definition rule_french :: "jsnum \<Rightarrow> nat" where
  "rule_french n = (if num_gt n 1 then 1 else 0)"

definition rule_lv :: "jsnum \<Rightarrow> nat" where
  "rule_lv n = (if num_eq (num_rem n 10) 1 \<and> \<not> num_eq (num_rem n 100) 11 then 0
     else if \<not> num_eq n 0 then 1 else 2)"

definition rule_lt :: "jsnum \<Rightarrow> nat" where
  "rule_lt n = (if num_eq (num_rem n 10) 1 \<and> \<not> num_eq (num_rem n 100) 11 then 0
     else if num_ge (num_rem n 10) 2
             \<and> (num_lt (num_rem n 100) 10 \<or> num_ge (num_rem n 100) 20) then 1 else 2)"

definition rule_russian :: "jsnum \<Rightarrow> nat" where
  "rule_russian n = (if num_eq (num_rem n 10) 1 \<and> \<not> num_eq (num_rem n 100) 11 then 0
     else if num_ge (num_rem n 10) 2 \<and> num_le (num_rem n 10) 4
             \<and> (num_lt (num_rem n 100) 10 \<or> num_ge (num_rem n 100) 20) then 1 else 2)"

definition rule_mnk :: "jsnum \<Rightarrow> nat" where
  "rule_mnk n = (if num_eq n 0 then 0 else if num_eq n 1 then 1 else 2)"

definition rule_ro :: "jsnum \<Rightarrow> nat" where
  "rule_ro n = (if num_eq n 1 then 0
     else if num_eq n 0 \<or> (num_gt (num_rem n 100) 0 \<and> num_lt (num_rem n 100) 20) then 1
     else 2)"

definition rule_pl :: "jsnum \<Rightarrow> nat" where
  "rule_pl n = (if num_eq n 1 then 0
     else if num_ge (num_rem n 10) 2 \<and> num_le (num_rem n 10) 4
             \<and> (num_lt (num_rem n 100) 10 \<or> num_ge (num_rem n 100) 20) then 1 else 2)"

definition rule_cs :: "jsnum \<Rightarrow> nat" where
  "rule_cs n = (if num_eq n 1 then 0 else if num_ge n 2 \<and> num_le n 4 then 1 else 2)"

definition rule_csb :: "jsnum \<Rightarrow> nat" where
  "rule_csb n = (if num_eq n 1 then 0
     else if num_ge (num_rem n 10) 2 \<and> num_le (num_rem n 10) 4
             \<and> (num_lt (num_rem n 100) 10 \<or> num_ge (num_rem n 100) 20) then 1 else 2)"

definition rule_sl :: "jsnum \<Rightarrow> nat" where
  "rule_sl n = (if num_eq (num_rem n 100) 1 then 0
     else if num_eq (num_rem n 100) 2 then 1
     else if num_eq (num_rem n 100) 3 \<or> num_eq (num_rem n 100) 4 then 2 else 3)"

definition rule_mt :: "jsnum \<Rightarrow> nat" where
  "rule_mt n = (if num_eq n 1 then 0
     else if num_eq n 0 \<or> (num_gt (num_rem n 100) 1 \<and> num_lt (num_rem n 100) 11) then 1
     else if num_gt (num_rem n 100) 10 \<and> num_lt (num_rem n 100) 20 then 2 else 3)"

definition rule_gd :: "jsnum \<Rightarrow> nat" where
  "rule_gd n = (if num_eq n 1 \<or> num_eq n 11 then 0
     else if num_eq n 2 \<or> num_eq n 12 then 1
     else if num_gt n 2 \<and> num_lt n 20 then 2 else 3)"

definition rule_cy :: "jsnum \<Rightarrow> nat" where
  "rule_cy n = (if num_eq n 1 then 0 else if num_eq n 2 then 1
     else if \<not> num_eq n 8 \<and> \<not> num_eq n 11 then 2 else 3)"

definition rule_kw :: "jsnum \<Rightarrow> nat" where
  "rule_kw n = (if num_eq n 1 then 0 else if num_eq n 2 then 1
     else if num_eq n 3 then 2 else 3)"

definition rule_ga :: "jsnum \<Rightarrow> nat" where
  "rule_ga n = (if num_eq n 1 then 0 else if num_eq n 2 then 1
     else if num_gt n 2 \<and> num_lt n 7 then 2
     else if num_gt n 6 \<and> num_lt n 11 then 3 else 4)"

definition rule_ar :: "jsnum \<Rightarrow> nat" where
  "rule_ar n = (if num_eq n 0 then 0 else if num_eq n 1 then 1 else if num_eq n 2 then 2
     else if num_ge (num_rem n 100) 3 \<and> num_le (num_rem n 100) 10 then 3
     else if num_ge (num_rem n 100) 11 then 4 else 5)"

definition rule_default :: "jsnum \<Rightarrow> nat" where
  "rule_default n = (if \<not> num_eq n 1 then 1 else 0)"

text \<open>
  The \<open>switch\<close>: the first matching label wins, labels without a body fall through to
  the next \<open>return\<close>.
\<close>

definition getTranslationIndex :: "string \<Rightarrow> jsnum \<Rightarrow> nat" where
  "getTranslationIndex languageCode n =
    (if languageCode \<in> set one_form_codes then 0
     else if languageCode = ''is'' then rule_is n
     else if languageCode = ''jv'' then rule_jv n
     else if languageCode = ''mk'' then rule_mk n
     else if languageCode \<in> set french_codes then rule_french n
     else if languageCode = ''lv'' then rule_lv n
     else if languageCode = ''lt'' then rule_lt n
     else if languageCode \<in> set russian_codes then rule_russian n
     else if languageCode = ''mnk'' then rule_mnk n
     else if languageCode = ''ro'' then rule_ro n
     else if languageCode = ''pl'' then rule_pl n
     else if languageCode \<in> set [''cs'', ''sk''] then rule_cs n
     else if languageCode = ''csb'' then rule_csb n
     else if languageCode = ''sl'' then rule_sl n
     else if languageCode = ''mt'' then rule_mt n
     else if languageCode = ''gd'' then rule_gd n
     else if languageCode = ''cy'' then rule_cy n
     else if languageCode = ''kw'' then rule_kw n
     else if languageCode = ''ga'' then rule_ga n
     else if languageCode = ''ar'' then rule_ar n
     else rule_default n)"

text \<open>
  The rule table as the source labels it: each group of \<open>case\<close> labels with the number
  of forms its comment declares, in source order.
\<close>

definition plural_rule_table :: "(string list \<times> nat) list" where
  "plural_rule_table =
    [(one_form_codes, 1), ([''is''], 2), ([''jv''], 2), ([''mk''], 2), (french_codes, 2),
     ([''lv''], 3), ([''lt''], 3), (russian_codes, 3), ([''mnk''], 3), ([''ro''], 3),
     ([''pl''], 3), ([''cs'', ''sk''], 3), ([''csb''], 3), ([''sl''], 4), ([''mt''], 4),
     ([''gd''], 4), ([''cy''], 4), ([''kw''], 4), ([''ga''], 5), ([''ar''], 6)]"

definition table_codes :: "string list" where
  "table_codes = concat (map fst plural_rule_table)"

section \<open>Strings\<close>

text \<open>
  Strings are sequences of 8-bit code units. \<open>\w\<close> is \<open>[A-Za-z0-9_]\<close>; the regular
  expression's \<open>.\<close> excludes the line terminators; \<open>trim\<close> removes white space and
  line terminators from both ends.
\<close>

definition is_word :: "char \<Rightarrow> bool" where
  "is_word c = (let k = (of_char c :: nat) in
     (48 \<le> k \<and> k \<le> 57) \<or> (65 \<le> k \<and> k \<le> 90) \<or> (97 \<le> k \<and> k \<le> 122) \<or> k = 95)"

definition is_line_terminator :: "char \<Rightarrow> bool" where
  "is_line_terminator c = ((of_char c :: nat) \<in> {10, 13})"

definition is_space :: "char \<Rightarrow> bool" where
  "is_space c = ((of_char c :: nat) \<in> {9, 10, 11, 12, 13, 32, 160})"

definition trim :: "string \<Rightarrow> string" where
  "trim s = rev (dropWhile is_space (rev (dropWhile is_space s)))"

text \<open>\<open>s.split(sep)\<close> for a non-empty separator string.\<close>

function split_acc :: "string \<Rightarrow> string \<Rightarrow> string \<Rightarrow> string list" where
  "split_acc sep cur [] = [rev cur]"
| "split_acc sep cur (x # xs) =
     (if sep \<noteq> [] \<and> take (length sep) (x # xs) = sep
      then rev cur # split_acc sep [] (drop (length sep) (x # xs))
      else split_acc sep (x # cur) xs)"
  by pat_completeness auto
termination
  by (relation "measure (\<lambda>(sep, cur, s). length s)") auto

definition split :: "string \<Rightarrow> string \<Rightarrow> string list" where
  "split s sep = split_acc sep [] s"

section \<open>The renderer (\<open>renderFn\<close>)\<close>

text \<open>
  The configuration. \<open>identifiers\<close> is the pair of delimiters, each a single character
  that stands for itself in a regular expression, as the default \<open>['{', '}']\<close> does.
  \<open>onTranslationNotFound\<close> returns the value its result resolves to.
\<close>

record config =
  warnings :: bool
  identifiers :: "char \<times> char"
  onTranslationNotFound :: "string \<Rightarrow> string \<Rightarrow> string \<Rightarrow> jsval"

text \<open>
  The matcher is \<open>start{1}(\w{1}|\w.+?)end{1}\<close>: the start delimiter, a word
  character, then lazily any characters but line terminators up to the first end
  delimiter. \<open>find_close\<close> scans for that end delimiter and returns what lies before
  and after it.
\<close>

fun find_close :: "char \<Rightarrow> string \<Rightarrow> (string \<times> string) option" where
  "find_close e [] = None"
| "find_close e (x # xs) =
     (if x = e then Some ([], xs)
      else if is_line_terminator x then None
      else (case find_close e xs of
              None \<Rightarrow> None
            | Some (inner, rest) \<Rightarrow> Some (x # inner, rest)))"

definition match_at :: "config \<Rightarrow> string \<Rightarrow> (string \<times> string) option" where
  "match_at cfg s = (case s of
      b # w # rest \<Rightarrow>
        if b = fst (identifiers cfg) \<and> is_word w
        then (case find_close (snd (identifiers cfg)) rest of
                None \<Rightarrow> None
              | Some (inner, rest') \<Rightarrow> Some (b # w # inner @ [snd (identifiers cfg)], rest'))
        else None
    | _ \<Rightarrow> None)"

lemma find_close_shorter: "find_close e xs = Some (inner, rest) \<Longrightarrow> length rest < length xs"
  by (induction xs arbitrary: inner rest) (auto split: if_splits option.splits)

lemma match_at_shorter: "match_at cfg s = Some (p, rest) \<Longrightarrow> length rest < length s"
  by (auto simp: match_at_def split: list.splits if_splits option.splits
      dest!: find_close_shorter)

text \<open>
  \<open>translation.replace(matcher, callback)\<close> on a string: every match, from the left,
  is replaced by what the callback returns; \<open>text\<close> is the whole translation, for the
  notice.
\<close>

function replace_str ::
  "config \<Rightarrow> (string \<rightharpoonup> string) \<Rightarrow> string \<Rightarrow> string \<Rightarrow> string \<times> effect list" where
  "replace_str cfg replacements text [] = ([], [])"
| "replace_str cfg replacements text (x # xs) =
     (case match_at cfg (x # xs) of
        None \<Rightarrow> (let (out, es) = replace_str cfg replacements text xs in (x # out, es))
      | Some (placeholder, rest) \<Rightarrow>
          (let key = remove1 (snd (identifiers cfg)) (remove1 (fst (identifiers cfg)) placeholder);
               (out, es) = replace_str cfg replacements text rest
           in case replacements key of
                Some r \<Rightarrow> (r @ out, es)
              | None \<Rightarrow> (placeholder @ out,
                  (if warnings cfg then [WarnPlaceholderNotFound text placeholder] else []) @ es)))"
  by pat_completeness auto
termination
  by (relation "measure (\<lambda>(cfg, replacements, text, s). length s)")
     (auto dest: match_at_shorter)

text \<open>
  \<open>replace(translation, replacements)\<close>. Reading \<open>translation.replace\<close> throws on
  \<open>null\<close> and \<open>undefined\<close>; a value without the member is returned as it is; an
  object whose own \<open>replace\<close> member is truthy is called, and no value of the data
  model is callable.
\<close>

definition replace :: "config \<Rightarrow> jsval \<Rightarrow> (string \<rightharpoonup> string) \<Rightarrow> jsval result" where
  "replace cfg translation replacements = (case translation of
      JUndefined \<Rightarrow> (Inl TypeError, [])
    | JNull \<Rightarrow> (Inl TypeError, [])
    | JStr s \<Rightarrow> (let (out, es) = replace_str cfg replacements s s in (Inr (JStr out), es))
    | JObj props \<Rightarrow> (case map_of props ''replace'' of
          None \<Rightarrow> (Inr translation, [])
        | Some m \<Rightarrow> if truthy m then (Inl TypeError, []) else (Inr translation, []))
    | _ \<Rightarrow> (Inr translation, []))"

text \<open>\<open>translation.map(item => replace(item, replacements, false))\<close>.\<close>

fun replace_items :: "config \<Rightarrow> (string \<rightharpoonup> string) \<Rightarrow> jsval list \<Rightarrow> jsval list result" where
  "replace_items cfg replacements [] = (Inr [], [])"
| "replace_items cfg replacements (item # items) =
     (case replace cfg item replacements of
        (Inl e, es) \<Rightarrow> (Inl e, es)
      | (Inr v, es) \<Rightarrow>
          (case replace_items cfg replacements items of
             (Inl e, es') \<Rightarrow> (Inl e, es @ es')
           | (Inr vs, es') \<Rightarrow> (Inr (v # vs), es @ es')))"

definition resolvePlaceholders :: "config \<Rightarrow> jsval \<Rightarrow> (string \<rightharpoonup> string) \<Rightarrow> jsval result" where
  "resolvePlaceholders cfg translation replacements = (case translation of
      JArr items \<Rightarrow> (case replace_items cfg replacements items of
          (Inl e, es) \<Rightarrow> (Inl e, es)
        | (Inr vs, es) \<Rightarrow> (Inr (JArr vs), es))
    | JStr s \<Rightarrow> replace cfg translation replacements
    | _ \<Rightarrow> (Inr JUndefined, []))"

text \<open>\<open>xs[i]\<close>: \<open>undefined\<close> out of range.\<close>

definition get_index :: "jsval list \<Rightarrow> nat \<Rightarrow> jsval" where
  "get_index xs i = (if i < length xs then xs ! i else JUndefined)"

text \<open>\<open>v.trim()\<close>: only a string has the method.\<close>

definition trim_val :: "jsval \<Rightarrow> error + jsval" where
  "trim_val v = (case v of JStr s \<Rightarrow> Inr (JStr (trim s)) | _ \<Rightarrow> Inl TypeError)"

text \<open>
  The variant list: a non-empty array as it is, otherwise \<open>resolvedTranslation.split(':::')\<close>,
  which only a string has.
\<close>

definition pluralizations_of :: "jsval \<Rightarrow> error + jsval list" where
  "pluralizations_of resolvedTranslation = (case resolvedTranslation of
      JArr vs \<Rightarrow> if length vs > 0 then Inr vs else Inl TypeError
    | JStr s \<Rightarrow> Inr (map JStr (split s '':::''))
    | _ \<Rightarrow> Inl TypeError)"

text \<open>
  \<open>render(locale, translation, replacements, pluralization)\<close>; an \<open>undefined\<close>
  pluralization takes the default \<open>null\<close>. The branch \<open>JNum\<close> is
  \<open>typeof pluralization === 'number'\<close>.
\<close>

definition render ::
  "config \<Rightarrow> string \<Rightarrow> jsval \<Rightarrow> (string \<rightharpoonup> string) \<Rightarrow> jsval \<Rightarrow> jsval result" where
  "render cfg locale translation replacements pluralization = (case pluralization of
      JUndefined \<Rightarrow> resolvePlaceholders cfg translation replacements
    | JNull \<Rightarrow> resolvePlaceholders cfg translation replacements
    | JNum n \<Rightarrow>
        (case resolvePlaceholders cfg translation replacements of
           (Inl e, es) \<Rightarrow> (Inl e, es)
         | (Inr resolvedTranslation, es) \<Rightarrow>
             (case pluralizations_of resolvedTranslation of
                Inl e \<Rightarrow> (Inl e, es)
              | Inr pluralizations \<Rightarrow>
                  (let index = getTranslationIndex locale n in
                   if get_index pluralizations index = JUndefined
                   then (trim_val (get_index pluralizations 0),
                         es @ (if warnings cfg then [WarnPluralizationNotProvided] else []))
                   else (trim_val (get_index pluralizations index), es))))
    | _ \<Rightarrow>
        (let (r, es) = resolvePlaceholders cfg translation replacements
         in (r, (if warnings cfg then [WarnPluralizationNotNumber] else []) @ es)))"

section \<open>The store module (\<open>i18nVuexModule\<close>)\<close>

text \<open>
  The objects that \<open>flattenTranslations\<close> builds and reads inherit from
  \<open>Object.prototype\<close>, and two keys are not ordinary there. An assignment
  \<open>toReturn['__proto__'] = v\<close> runs the setter of the prototype and creates no own
  property (an array given there becomes the prototype, which no later step reads; a
  scalar is ignored). An own property \<open>hasOwnProperty\<close> of an object shadows the method
  of that name, and no value of the data model is callable, so
  \<open>translations.hasOwnProperty(i)\<close> then throws.
\<close>

definition own_props :: "jsval \<Rightarrow> (string \<times> jsval) list" where
  "own_props v = (case v of JObj props \<Rightarrow> props | _ \<Rightarrow> [])"

definition obj_set :: "string \<Rightarrow> jsval \<Rightarrow> (string \<times> jsval) list \<Rightarrow> (string \<times> jsval) list" where
  "obj_set k v obj = (if k = ''__proto__'' then obj else AList.update k v obj)"

definition has_own :: "(string \<times> jsval) list \<Rightarrow> string \<Rightarrow> bool" where
  "has_own obj k = (map_of obj k \<noteq> None)"

text \<open>
  \<open>flattenTranslations\<close>. \<open>flatten_loop\<close> is the loop over the own properties of an
  object that has no own property \<open>hasOwnProperty\<close>, with the object \<open>toReturn\<close> under
  construction; on an object that has one, the first turn of the loop throws, also in a
  recursive call. \<open>typeof null\<close> is \<open>'object'\<close> and the test \<open>objType !== null\<close>
  compares a string with \<open>null\<close>, so \<open>null\<close> takes the recursive branch, where
  \<open>for (var i in null)\<close> enumerates nothing. The keys that the inner loop writes hold
  a dot, and the keys of the outer loop are not \<open>hasOwnProperty\<close>, so \<open>flatObject\<close>
  never shadows the method that the inner loop calls (lemma \<open>flatten_loop_no_shadow\<close>).
\<close>

function flatten_loop ::
  "(string \<times> jsval) list \<Rightarrow> (string \<times> jsval) list \<Rightarrow> error + (string \<times> jsval) list" where
  "flatten_loop [] toReturn = Inr toReturn"
| "flatten_loop ((i, v) # rest) toReturn =
     (if isArray v then flatten_loop rest (obj_set i v toReturn)
      else if typeof v = ''object''
      then (case (if has_own (own_props v) ''hasOwnProperty'' then Inl TypeError
                  else flatten_loop (own_props v) []) of
              Inl e \<Rightarrow> Inl e
            | Inr flatObject \<Rightarrow>
                flatten_loop rest
                  (fold (\<lambda>(x, fv). obj_set (i @ ''.'' @ x) fv) flatObject toReturn))
      else flatten_loop rest (obj_set i v toReturn))"
  by pat_completeness auto
termination
  by (relation "measure (\<lambda>(translations, toReturn).
        size_list (size_prod (\<lambda>_. 0) size) translations)")
     (auto simp: own_props_def isArray_def typeof_def split: jsval.splits)

definition flattenTranslations ::
  "(string \<times> jsval) list \<Rightarrow> error + (string \<times> jsval) list" where
  "flattenTranslations translations =
     (if has_own translations ''hasOwnProperty'' then Inl TypeError
      else flatten_loop translations [])"

text \<open>
  \<open>flattenTranslations\<close> also warns, once for each array that holds an element that is
  not a string; the notices of a loop that completes, in its order:
\<close>

function flatten_notices :: "(string \<times> jsval) list \<Rightarrow> effect list" where
  "flatten_notices [] = []"
| "flatten_notices ((i, v) # rest) =
     (if isArray v
      then (case v of
              JArr items \<Rightarrow> if \<exists>item \<in> set items. typeof item \<noteq> ''string''
                            then [WarnArrayNotStrings] else []
            | _ \<Rightarrow> [])
      else if typeof v = ''object'' then flatten_notices (own_props v)
      else [])
     @ flatten_notices rest"
  by pat_completeness auto
termination
  by (relation "measure (size_list (size_prod (\<lambda>_. 0) size))")
     (auto simp: own_props_def isArray_def typeof_def split: jsval.splits)

text \<open>
  The state of the module. \<open>locale'\<close> and \<open>translations'\<close> are the fields \<open>locale\<close>
  and \<open>translations\<close>; \<open>None\<close> is \<open>null\<close>.
  The table maps a locale to its flat entry; it is taken to hold no locale named
  \<open>hasOwnProperty\<close>, which would shadow the method that every lookup calls.
\<close>

record i18nState =
  locale' :: "string option"
  fallback :: "string option"
  translations' :: "string \<rightharpoonup> (string \<rightharpoonup> jsval)"

definition initial_state :: i18nState where
  "initial_state = \<lparr>locale' = None, fallback = None, translations' = Map.empty\<rparr>"

definition SET_LOCALE :: "i18nState \<Rightarrow> string option \<Rightarrow> i18nState" where
  "SET_LOCALE state payload_locale = state\<lparr>locale' := payload_locale\<rparr>"

text \<open>
  \<open>state.translations[l] = entry\<close>: the key \<open>__proto__\<close> creates no own property.
\<close>

definition table_set ::
  "string \<Rightarrow> (string \<rightharpoonup> jsval) \<Rightarrow> (string \<rightharpoonup> (string \<rightharpoonup> jsval)) \<Rightarrow>
   (string \<rightharpoonup> (string \<rightharpoonup> jsval))" where
  "table_set l entry table = (if l = ''__proto__'' then table else table(l \<mapsto> entry))"

text \<open>Both mutations flatten first: when that throws, the state is as before.\<close>

definition ADD_LOCALE ::
  "i18nState \<Rightarrow> string \<Rightarrow> (string \<times> jsval) list \<Rightarrow> error + i18nState" where
  "ADD_LOCALE state payload_locale payload_translations =
    (case flattenTranslations payload_translations of
       Inl e \<Rightarrow> Inl e
     | Inr flat \<Rightarrow>
        (case translations' state payload_locale of
           Some existingTranslations \<Rightarrow>
             Inr (state\<lparr>translations' :=
               table_set payload_locale (existingTranslations ++ map_of flat)
                 (translations' state)\<rparr>)
         | None \<Rightarrow>
             Inr (state\<lparr>translations' :=
               table_set payload_locale (map_of flat) (translations' state)\<rparr>)))"

definition REPLACE_LOCALE ::
  "i18nState \<Rightarrow> string \<Rightarrow> (string \<times> jsval) list \<Rightarrow> error + i18nState" where
  "REPLACE_LOCALE state payload_locale payload_translations =
    (case flattenTranslations payload_translations of
       Inl e \<Rightarrow> Inl e
     | Inr flat \<Rightarrow>
         Inr (state\<lparr>translations' :=
           table_set payload_locale (map_of flat) (translations' state)\<rparr>))"


definition SET_FALLBACK_LOCALE :: "i18nState \<Rightarrow> string option \<Rightarrow> i18nState" where
  "SET_FALLBACK_LOCALE state payload_locale = state\<lparr>fallback := payload_locale\<rparr>"

section \<open>The plugin (\<open>VuexI18nPlugin\<close>)\<close>

text \<open>A property name: \<open>null\<close> used as a key is the string \<open>"null"\<close>.\<close>

definition to_key :: "string option \<Rightarrow> string" where
  "to_key l = (case l of None \<Rightarrow> ''null'' | Some s \<Rightarrow> s)"

text \<open>
  \<open>table.hasOwnProperty(l) && table[l].hasOwnProperty(key)\<close>, with the
  value \<open>table[l][key]\<close> when both hold.
\<close>

definition lookup :: "(string \<rightharpoonup> (string \<rightharpoonup> jsval)) \<Rightarrow> string \<Rightarrow> string \<Rightarrow> jsval option" where
  "lookup table l key = (case table l of None \<Rightarrow> None | Some entry \<Rightarrow> entry key)"

definition with_effects :: "effect list \<Rightarrow> 'a result \<Rightarrow> 'a result" where
  "with_effects es r = (fst r, es @ snd r)"

text \<open>
  \<open>translateInLanguage\<close>, the method of the class in \<open>src/vuex-i18n-plugin.js\<close>
  (where \<open>this\<close> is the plugin), after the reading of the argument list: \<open>defaultValue\<close> is
  \<open>None\<close> when the caller gave none, and is then the key. When the callback returns a
  truthy value the later \<open>addLocale\<close> is recorded as scheduled. The switch of
  \<open>getTranslationIndex\<close> has no label \<open>null\<close> nor \<open>"null"\<close>, so the call
  \<open>render(fallback, ...)\<close> passes the fallback as a key.
\<close>

definition translateInLanguage ::
  "config \<Rightarrow> i18nState \<Rightarrow> string option \<Rightarrow> string \<Rightarrow> string option \<Rightarrow>
   (string \<rightharpoonup> string) \<Rightarrow> jsval \<Rightarrow> jsval result" where
  "translateInLanguage cfg state locale key defaultValue0 options pluralization =
    (let defaultValue = (case defaultValue0 of Some d \<Rightarrow> d | None \<Rightarrow> key) in
     if locale = None \<or> locale = Some []
     then (Inr (JStr defaultValue), if warnings cfg then [WarnLocaleNotSet key] else [])
     else
       let l = to_key locale;
           localeRegional = split l ''-''
       in case lookup (translations' state) l key of
            Some v \<Rightarrow> render cfg l v options pluralization
          | None \<Rightarrow>
             (case (if length localeRegional > 1
                    then lookup (translations' state) (hd localeRegional) key else None) of
                Some v \<Rightarrow> render cfg (hd localeRegional) v options pluralization
              | None \<Rightarrow>
                 (let asyncTranslation = onTranslationNotFound cfg l key defaultValue;
                      es = NotFoundCallback l key defaultValue #
                           (if truthy asyncTranslation
                            then [ScheduleAddLocale l key asyncTranslation] else [])
                  in with_effects es
                     (if translations' state (to_key (fallback state)) = None
                      then render cfg l (JStr defaultValue) options pluralization
                      else case lookup (translations' state) (to_key (fallback state)) key of
                             None \<Rightarrow> render cfg (to_key (fallback state)) (JStr defaultValue)
                                       options pluralization
                           | Some v \<Rightarrow> render cfg l v options pluralization))))"

definition translate ::
  "config \<Rightarrow> i18nState \<Rightarrow> string \<Rightarrow> string option \<Rightarrow> (string \<rightharpoonup> string) \<Rightarrow> jsval \<Rightarrow>
   jsval result" where
  "translate cfg state key defaultValue0 options pluralization =
     translateInLanguage cfg state (locale' state) key defaultValue0 options pluralization"

text \<open>
  \<open>checkKeyExists(key, scope)\<close>; a missing \<open>scope\<close> is \<open>'fallback'\<close>.
  \<open>locale.split('-')\<close> throws when the locale is \<open>null\<close>.
\<close>

definition checkKeyExists :: "i18nState \<Rightarrow> string \<Rightarrow> string option \<Rightarrow> error + bool" where
  "checkKeyExists state key scope0 =
    (let scope = (case scope0 of Some s \<Rightarrow> s | None \<Rightarrow> ''fallback'') in
     if lookup (translations' state) (to_key (locale' state)) key \<noteq> None then Inr True
     else if scope = ''strict'' then Inr False
     else case locale' state of
            None \<Rightarrow> Inl TypeError
          | Some l \<Rightarrow>
             (let localeRegional = split l ''-'' in
              if length localeRegional > 1
                 \<and> lookup (translations' state) (hd localeRegional) key \<noteq> None then Inr True
              else if scope = ''locale'' then Inr False
              else if lookup (translations' state) (to_key (fallback state)) key \<noteq> None
              then Inr True
              else Inr False))"

definition checkLocaleExists :: "i18nState \<Rightarrow> string \<Rightarrow> bool" where
  "checkLocaleExists state l = (translations' state l \<noteq> None)"

text \<open>The default configuration of the plugin; the default callback returns nothing.\<close>

definition default_config :: config where
  "default_config = \<lparr>warnings = True, identifiers = (CHR ''{'', CHR ''}''),
     onTranslationNotFound = (\<lambda>locale key defaultValue. JUndefined)\<rparr>"

section \<open>Notions used in the statements\<close>

text \<open>
  A value that \<open>replace\<close> hands back: it is neither \<open>null\<close> nor \<open>undefined\<close> nor a
  string, and it has no truthy member \<open>replace\<close>.
\<close>

definition lacks_replace :: "jsval \<Rightarrow> bool" where
  "lacks_replace v = (case v of
      JBool _ \<Rightarrow> True
    | JNum _ \<Rightarrow> True
    | JArr _ \<Rightarrow> True
    | JObj props \<Rightarrow> (case map_of props ''replace'' of None \<Rightarrow> True | Some m \<Rightarrow> \<not> truthy m)
    | _ \<Rightarrow> False)"

text \<open>
  The entry \<open>(i, w)\<close> of a tree assigns to the key \<open>k\<close> of the flat result: directly
  when \<open>w\<close> is an array or a scalar, through one of its dotted keys when \<open>w\<close> takes the
  recursive branch.
\<close>

definition writes_key :: "string \<Rightarrow> string \<times> jsval \<Rightarrow> bool" where
  "writes_key k e = (case e of (i, w) \<Rightarrow>
      if isArray w then i = k
      else if typeof w = ''object''
      then (case flattenTranslations (own_props w) of
              Inl err \<Rightarrow> False
            | Inr flatObject \<Rightarrow> k \<in> set (map (\<lambda>(x, fv). i @ ''.'' @ x) flatObject))
      else i = k)"

text \<open>
  No object that the flattening of a tree visits (the tree and, recursively, its nested
  mappings; not the arrays) has an own property \<open>hasOwnProperty\<close>.
\<close>

function shadow_free :: "(string \<times> jsval) list \<Rightarrow> bool" where
  "shadow_free [] = True"
| "shadow_free ((i, v) # rest) =
     (i \<noteq> ''hasOwnProperty''
      \<and> (if \<not> isArray v \<and> typeof v = ''object'' then shadow_free (own_props v) else True)
      \<and> shadow_free rest)"
  by pat_completeness auto
termination
  by (relation "measure (size_list (size_prod (\<lambda>_. 0) size))")
     (auto simp: own_props_def isArray_def typeof_def split: jsval.splits)

section \<open>Properties of the plural rules\<close>

lemmas rule_defs = rule_is_def rule_jv_def rule_mk_def rule_french_def rule_lv_def
  rule_lt_def rule_russian_def rule_mnk_def rule_ro_def rule_pl_def rule_cs_def
  rule_csb_def rule_sl_def rule_mt_def rule_gd_def rule_cy_def rule_kw_def rule_ga_def
  rule_ar_def rule_default_def

lemmas code_lists = one_form_codes_def french_codes_def russian_codes_def

lemma rule_bounds:
  "rule_is n < 2" "rule_jv n < 2" "rule_mk n < 2" "rule_french n < 2"
  "rule_lv n < 3" "rule_lt n < 3" "rule_russian n < 3" "rule_mnk n < 3" "rule_ro n < 3"
  "rule_pl n < 3" "rule_cs n < 3" "rule_csb n < 3"
  "rule_sl n < 4" "rule_mt n < 4" "rule_gd n < 4" "rule_cy n < 4" "rule_kw n < 4"
  "rule_ga n < 5" "rule_ar n < 6" "rule_default n < 2"
  by (simp_all add: rule_defs)

lemma index_within_forms:
  "\<forall>(codes, forms) \<in> set plural_rule_table. \<forall>languageCode \<in> set codes.
     getTranslationIndex languageCode n < forms"
  unfolding plural_rule_table_def
  by (simp add: getTranslationIndex_def code_lists rule_bounds)

lemma forms_range: "\<forall>(codes, forms) \<in> set plural_rule_table. 1 \<le> forms \<and> forms \<le> 6"
  by (simp add: plural_rule_table_def)

lemma unknown_code:
  "languageCode \<notin> set table_codes \<Longrightarrow> getTranslationIndex languageCode n = rule_default n"
  by (simp add: table_codes_def plural_rule_table_def getTranslationIndex_def code_lists)

lemma rule_default_int: "rule_default (int_num count) = (if count = 1 then 0 else 1)"
  by (simp add: rule_default_def num_eq_def int_num_def)

text \<open>
  C3. \<open>getTranslationIndex\<close> is a function of its two arguments with no error
  branch. For every language code of the rule table and every integer count from -5 to 20
  the index is below the number of forms declared for the code's group, which lies
  between 1 and 6; for a code that is not in the table the index is 0 when the count is
  1 and 1 otherwise.
\<close>

theorem pluralIndex_within_declared_forms:
  "(\<forall>(codes, forms) \<in> set plural_rule_table. 1 \<le> forms \<and> forms \<le> 6 \<and>
      (\<forall>languageCode \<in> set codes. \<forall>count \<in> {-5..20}.
         getTranslationIndex languageCode (int_num count) < forms))
   \<and> (\<forall>languageCode count. languageCode \<notin> set table_codes \<longrightarrow>
         getTranslationIndex languageCode (int_num count) = (if count = 1 then 0 else 1))"
proof (intro conjI)
  show "\<forall>(codes, forms) \<in> set plural_rule_table. 1 \<le> forms \<and> forms \<le> 6 \<and>
      (\<forall>languageCode \<in> set codes. \<forall>count \<in> {-5..20}.
         getTranslationIndex languageCode (int_num count) < forms)"
    using index_within_forms forms_range by fastforce
  show "\<forall>languageCode count. languageCode \<notin> set table_codes \<longrightarrow>
         getTranslationIndex languageCode (int_num count) = (if count = 1 then 0 else 1)"
    by (simp add: unknown_code rule_default_int)
qed

theorem pluralIndex_within_declared_forms_witness:
  "([''pl''], 3) \<in> set plural_rule_table \<and> (2::int) \<in> {-5..20}
   \<and> getTranslationIndex ''pl'' (int_num 2) < 3
   \<and> ''en'' \<notin> set table_codes
   \<and> getTranslationIndex ''en'' (int_num 1) = 0
   \<and> getTranslationIndex ''en'' (int_num (-3)) = 1"
proof -
  have t: "([''pl''], 3) \<in> set plural_rule_table"
    by (simp add: plural_rule_table_def)
  have e: "''en'' \<notin> set table_codes"
    by (simp add: table_codes_def plural_rule_table_def code_lists)
  have r: "(2::int) \<in> {-5..20}" by simp
  from pluralIndex_within_declared_forms t r
  have "getTranslationIndex ''pl'' (int_num 2) < 3" by fastforce
  moreover from pluralIndex_within_declared_forms e
  have "getTranslationIndex ''en'' (int_num 1) = 0"
    "getTranslationIndex ''en'' (int_num (-3)) = 1" by simp_all
  ultimately show ?thesis using t e r by simp
qed

text \<open>
  C10. \<open>getTranslationIndex\<close> returns 0 for \<open>"zh"\<close> at every number \<open>n\<close>, so at
  every integer count \<open>int_num c\<close>: the one-form group, which lists \<open>"zh"\<close>, comes
  first, and the label \<open>"zh"\<close> of the two-form group is never reached.
\<close>

theorem zh_always_first_form: "getTranslationIndex ''zh'' n = 0"
  by (simp add: getTranslationIndex_def one_form_codes_def)

section \<open>Properties of the store\<close>



section \<open>Properties of the resolution engine\<close>

lemmas render_defs = render_def resolvePlaceholders_def replace_def match_at_def
  is_word_def is_line_terminator_def split_def pluralizations_of_def get_index_def
  trim_val_def trim_def is_space_def


lemma split_acc_nonempty: "split_acc sep cur s \<noteq> []"
  by (induction sep cur s rule: split_acc.induct) auto





text \<open>
  With an active locale \<open>l\<close>: scope \<open>strict\<close> checks the entry of \<open>l\<close> only, scope
  \<open>locale\<close> also that of the regional parent, scope \<open>fallback\<close>, which is the default,
  also that of the fallback locale. Hence, with an active locale, a key present only in
  the entry of the fallback locale does not exist in scope \<open>strict\<close> and exists in scope
  \<open>fallback\<close>.
\<close>

lemma keyExists_scopes:
  assumes "locale' state = Some l"
  shows "checkKeyExists state key (Some ''strict'')
           = Inr (lookup (translations' state) l key \<noteq> None)
    \<and> checkKeyExists state key (Some ''locale'')
           = Inr (lookup (translations' state) l key \<noteq> None
                  \<or> (length (split l ''-'') > 1
                      \<and> lookup (translations' state) (hd (split l ''-'')) key \<noteq> None))
    \<and> checkKeyExists state key (Some ''fallback'')
           = Inr (lookup (translations' state) l key \<noteq> None
                  \<or> (length (split l ''-'') > 1
                      \<and> lookup (translations' state) (hd (split l ''-'')) key \<noteq> None)
                  \<or> lookup (translations' state) (to_key (fallback state)) key \<noteq> None)
    \<and> checkKeyExists state key None = checkKeyExists state key (Some ''fallback'')
    \<and> (lookup (translations' state) l key = None
        \<and> (length (split l ''-'') > 1 \<longrightarrow>
              lookup (translations' state) (hd (split l ''-'')) key = None)
        \<and> lookup (translations' state) (to_key (fallback state)) key \<noteq> None
        \<longrightarrow> checkKeyExists state key (Some ''strict'') = Inr False
            \<and> checkKeyExists state key (Some ''fallback'') = Inr True)"
  using assms by (auto simp add: checkKeyExists_def to_key_def Let_def)



text \<open>A key that only the fallback locale \<open>en\<close> has, with the active locale \<open>de-CH\<close>.\<close>

lemma keyExists_scopes_example:
  "locale' (initial_state\<lparr>locale' := Some ''de-CH'', fallback := Some ''en'',
       translations' := [''en'' \<mapsto> [''k'' \<mapsto> JStr ''v'']]\<rparr>) = Some ''de-CH''
   \<and> checkKeyExists (initial_state\<lparr>locale' := Some ''de-CH'', fallback := Some ''en'',
       translations' := [''en'' \<mapsto> [''k'' \<mapsto> JStr ''v'']]\<rparr>) ''k'' (Some ''strict'') = Inr False
   \<and> checkKeyExists (initial_state\<lparr>locale' := Some ''de-CH'', fallback := Some ''en'',
       translations' := [''en'' \<mapsto> [''k'' \<mapsto> JStr ''v'']]\<rparr>) ''k'' (Some ''locale'') = Inr False
   \<and> checkKeyExists (initial_state\<lparr>locale' := Some ''de-CH'', fallback := Some ''en'',
       translations' := [''en'' \<mapsto> [''k'' \<mapsto> JStr ''v'']]\<rparr>) ''k'' (Some ''fallback'') = Inr True
   \<and> checkKeyExists (initial_state\<lparr>locale' := Some ''de-CH'', fallback := Some ''en'',
       translations' := [''en'' \<mapsto> [''k'' \<mapsto> JStr ''v'']]\<rparr>) ''k'' None = Inr True"
proof -
  define st where "st = initial_state\<lparr>locale' := Some ''de-CH'', fallback := Some ''en'',
       translations' := [''en'' \<mapsto> [''k'' \<mapsto> JStr ''v'']]\<rparr>"
  have h: "locale' st = Some ''de-CH''" by (simp add: st_def)
  have l1: "lookup (translations' st) ''de-CH'' ''k'' = None"
    by (simp add: st_def lookup_def)
  have l2: "lookup (translations' st) (hd (split ''de-CH'' ''-'')) ''k'' = None"
    by (simp add: st_def lookup_def split_def)
  have l3: "lookup (translations' st) (to_key (fallback st)) ''k'' \<noteq> None"
    by (simp add: st_def lookup_def to_key_def)
  from keyExists_scopes [OF h, of "''k''"] show ?thesis
    unfolding st_def [symmetric] using h l1 l2 l3 by simp
qed

text \<open>
  C1. The claim fails on the code. In the initial state, where no locale is set,
  \<open>checkKeyExists\<close> with the default scope throws a \<open>TypeError\<close>: it reads
  \<open>locale.split\<close> of \<open>null\<close>, where \<open>translateInLanguage\<close> tests \<open>!locale\<close> first.
  With a numeric count \<open>render\<close> throws on an empty array and on a number, which have
  no \<open>split\<close>.
\<close>

theorem keyExists_and_render_raise:
  "checkKeyExists initial_state ''k'' None = Inl TypeError
   \<and> render default_config ''en'' (JArr []) Map.empty (JNum (int_num 1)) = (Inl TypeError, [])
   \<and> render default_config ''en'' (JNum (int_num 5)) Map.empty (JNum (int_num 1))
       = (Inl TypeError, [])"
  by (simp add: checkKeyExists_def initial_state_def lookup_def to_key_def render_defs)

text \<open>
  C8. The claim fails on the code in a state without an active locale, the state in which
  the store starts. With the key present only in the entry of the fallback locale, scope
  \<open>strict\<close> gives false, as claimed; scope \<open>fallback\<close> and the default scope read
  \<open>locale.split\<close> of \<open>null\<close> and throw a \<open>TypeError\<close>, where the claim says true.
\<close>

theorem keyExists_fallback_raises_without_locale:
  "checkKeyExists \<lparr>locale' = None, fallback = Some ''en'',
       translations' = [''en'' \<mapsto> [''k'' \<mapsto> JStr ''v'']]\<rparr> ''k'' (Some ''strict'') = Inr False
   \<and> checkKeyExists \<lparr>locale' = None, fallback = Some ''en'',
       translations' = [''en'' \<mapsto> [''k'' \<mapsto> JStr ''v'']]\<rparr> ''k'' (Some ''fallback'')
       = Inl TypeError
   \<and> checkKeyExists \<lparr>locale' = None, fallback = Some ''en'',
       translations' = [''en'' \<mapsto> [''k'' \<mapsto> JStr ''v'']]\<rparr> ''k'' None = Inl TypeError"
  by (simp add: checkKeyExists_def lookup_def to_key_def)

section \<open>Properties of the renderer\<close>

text \<open>
  A number rendered without a count: the result is \<open>undefined\<close>, not the number.
\<close>

theorem render_number_counterexample:
  "fst (render default_config ''en'' (JNum (int_num 5)) Map.empty JNull) = Inr JUndefined
   \<and> fst (render default_config ''en'' (JNum (int_num 5)) Map.empty JNull)
       \<noteq> Inr (JNum (int_num 5))"
  by (simp add: render_def resolvePlaceholders_def)

lemma replace_lacks_replace:
  "lacks_replace item \<Longrightarrow> replace cfg item replacements = (Inr item, [])"
  by (auto simp: lacks_replace_def replace_def split: jsval.splits option.splits)

lemma replace_items_lacks_replace:
  "\<forall>item \<in> set items. lacks_replace item \<Longrightarrow>
   replace_items cfg replacements items = (Inr items, [])"
  by (induction items) (simp_all add: replace_lacks_replace)

text \<open>
  C4, amended. Without a count, \<open>render\<close> returns \<open>undefined\<close> for every value that
  is neither a string nor an array. The substitution is without effect on the elements of
  an array that are not strings: \<open>replace\<close> returns such an element as it is, and an
  array of such elements is rendered to itself.
\<close>

theorem render_non_string_value:
  assumes "pluralization = JNull \<or> pluralization = JUndefined"
  shows "(\<not> isArray v \<and> typeof v \<noteq> ''string'' \<longrightarrow>
            render cfg locale v replacements pluralization = (Inr JUndefined, []))
    \<and> (lacks_replace item \<longrightarrow> replace cfg item replacements = (Inr item, []))
    \<and> ((\<forall>item \<in> set items. lacks_replace item) \<longrightarrow>
          render cfg locale (JArr items) replacements pluralization = (Inr (JArr items), []))"
proof (intro conjI impI)
  assume "\<not> isArray v \<and> typeof v \<noteq> ''string''"
  then have "resolvePlaceholders cfg v replacements = (Inr JUndefined, [])"
    by (cases v) (simp_all add: resolvePlaceholders_def isArray_def typeof_def)
  with assms show "render cfg locale v replacements pluralization = (Inr JUndefined, [])"
    by (auto simp: render_def)
next
  assume "lacks_replace item"
  then show "replace cfg item replacements = (Inr item, [])"
    by (rule replace_lacks_replace)
next
  assume "\<forall>item \<in> set items. lacks_replace item"
  then have "resolvePlaceholders cfg (JArr items) replacements = (Inr (JArr items), [])"
    by (simp add: resolvePlaceholders_def replace_items_lacks_replace)
  with assms show "render cfg locale (JArr items) replacements pluralization
      = (Inr (JArr items), [])"
    by (auto simp: render_def)
qed

theorem render_non_string_value_witness:
  "\<not> isArray (JBool True) \<and> typeof (JBool True) \<noteq> ''string''
   \<and> render default_config ''en'' (JBool True) Map.empty JNull = (Inr JUndefined, [])
   \<and> lacks_replace (JNum (int_num 5))
   \<and> replace default_config (JNum (int_num 5)) Map.empty = (Inr (JNum (int_num 5)), [])
   \<and> lacks_replace (JBool False)
   \<and> render default_config ''en'' (JArr [JNum (int_num 5), JBool False]) Map.empty JNull
       = (Inr (JArr [JNum (int_num 5), JBool False]), [])"
proof -
  have a: "\<not> isArray (JBool True) \<and> typeof (JBool True) \<noteq> ''string''"
    by (simp add: isArray_def typeof_def)
  have b: "lacks_replace (JNum (int_num 5))" by (simp add: lacks_replace_def)
  have c: "\<forall>item \<in> set [JNum (int_num 5), JBool False]. lacks_replace item"
    by (simp add: lacks_replace_def)
  have d: "lacks_replace (JBool False)" by (simp add: lacks_replace_def)
  from render_non_string_value [of JNull "JBool True" default_config "''en''" Map.empty
      "JNum (int_num 5)" "[JNum (int_num 5), JBool False]"] a b c d
  show ?thesis by simp
qed

text \<open>
  The count 2.5 is a number: there is no notice, the string is split and the second
  variant is returned, where the candidate is the whole string.
\<close>

theorem render_fractional_count_counterexample:
  "render default_config ''en'' (JStr ''one:::many'') Map.empty (JNum (Fin (5 / 2)))
     = (Inr (JStr ''many''), [])
   \<and> resolvePlaceholders default_config (JStr ''one:::many'') Map.empty
     = (Inr (JStr ''one:::many''), [])"
  by (simp add: render_defs default_config_def getTranslationIndex_def code_lists
      rule_default_def num_eq_def)

lemma resolve_string:
  "resolvePlaceholders cfg (JStr s) replacements
   = (Inr (JStr (fst (replace_str cfg replacements s s))), snd (replace_str cfg replacements s s))"
  by (simp add: resolvePlaceholders_def replace_def split: prod.splits)

lemma split_nonempty: "split s sep \<noteq> []"
  by (simp add: split_def split_acc_nonempty)

text \<open>
  C5, amended. For a string and a count that is given and is not of type number,
  \<open>render\<close> emits the notice (when warnings are on), neither splits nor selects, and
  returns the substituted string. A count of type number, fractional or not, is
  pluralized: the substituted string is split at \<open>:::\<close> and the variant at the plural
  index, or the first one when there is none at that index, is returned trimmed.
\<close>

theorem render_count_by_type:
  "(typeof pluralization \<noteq> ''number'' \<and> pluralization \<noteq> JNull \<and> pluralization \<noteq> JUndefined
      \<longrightarrow> render cfg locale (JStr s) replacements pluralization
          = (Inr (JStr (fst (replace_str cfg replacements s s))),
             (if warnings cfg then [WarnPluralizationNotNumber] else [])
             @ snd (replace_str cfg replacements s s)))
   \<and> render cfg locale (JStr s) replacements (JNum n)
       = (let variants = split (fst (replace_str cfg replacements s s)) '':::'';
              index = getTranslationIndex locale n
          in if index < length variants
             then (Inr (JStr (trim (variants ! index))), snd (replace_str cfg replacements s s))
             else (Inr (JStr (trim (hd variants))),
                   snd (replace_str cfg replacements s s)
                   @ (if warnings cfg then [WarnPluralizationNotProvided] else [])))"
proof (intro conjI impI)
  assume a: "typeof pluralization \<noteq> ''number'' \<and> pluralization \<noteq> JNull
    \<and> pluralization \<noteq> JUndefined"
  then show "render cfg locale (JStr s) replacements pluralization
          = (Inr (JStr (fst (replace_str cfg replacements s s))),
             (if warnings cfg then [WarnPluralizationNotNumber] else [])
             @ snd (replace_str cfg replacements s s))"
    by (cases pluralization) (simp_all add: render_def resolve_string typeof_def)
next
  define variants where "variants = split (fst (replace_str cfg replacements s s)) '':::''"
  have ne: "variants \<noteq> []" by (simp add: variants_def split_nonempty)
  then have hd0: "map JStr variants ! 0 = JStr (hd variants)"
    by (cases variants) simp_all
  show "render cfg locale (JStr s) replacements (JNum n)
       = (let variants = split (fst (replace_str cfg replacements s s)) '':::'';
              index = getTranslationIndex locale n
          in if index < length variants
             then (Inr (JStr (trim (variants ! index))), snd (replace_str cfg replacements s s))
             else (Inr (JStr (trim (hd variants))),
                   snd (replace_str cfg replacements s s)
                   @ (if warnings cfg then [WarnPluralizationNotProvided] else [])))"
    unfolding variants_def [symmetric] Let_def
    using ne hd0
    by (simp add: render_def resolve_string pluralizations_of_def get_index_def trim_val_def
        variants_def [symmetric] Let_def)
qed

theorem render_count_by_type_witness:
  "typeof (JStr ''2'') \<noteq> ''number'' \<and> JStr ''2'' \<noteq> JNull \<and> JStr ''2'' \<noteq> JUndefined
   \<and> render default_config ''en'' (JStr ''one:::many'') Map.empty (JStr ''2'')
       = (Inr (JStr ''one:::many''), [WarnPluralizationNotNumber])"
proof -
  have a: "typeof (JStr ''2'') \<noteq> ''number'' \<and> JStr ''2'' \<noteq> JNull \<and> JStr ''2'' \<noteq> JUndefined"
    by (simp add: typeof_def)
  have r: "replace_str default_config Map.empty ''one:::many'' ''one:::many''
           = (''one:::many'', [])"
    by (simp add: match_at_def default_config_def)
  from render_count_by_type [of "JStr ''2''" default_config "''en''" "''one:::many''" Map.empty]
    a r
  show ?thesis by (simp add: default_config_def)
qed

section \<open>Properties of the flattener\<close>

text \<open>
  A scalar overwritten by the dotted key of a later nested mapping, and an entry \<open>null\<close>
  that leaves no key.
\<close>

theorem flatten_overwrite_and_null_counterexample:
  "flattenTranslations
      [(''a.b'', JNum (int_num 2)), (''a'', JObj [(''b'', JNum (int_num 1))])]
     = Inr [(''a.b'', JNum (int_num 1))]
   \<and> flattenTranslations [(''a'', JNull)] = Inr []"
  by (simp add: flattenTranslations_def has_own_def obj_set_def isArray_def typeof_def
      own_props_def)

text \<open>The two keys that are not ordinary properties.\<close>

lemma flatten_special_keys:
  "flattenTranslations [(''__proto__'', JStr ''x'')] = Inr []"
  "flattenTranslations [(''a'', JStr ''y''), (''hasOwnProperty'', JStr ''x'')] = Inl TypeError"
  "flattenTranslations [(''a'', JObj [(''hasOwnProperty'', JBool True)])] = Inl TypeError"
  by (simp_all add: flattenTranslations_def has_own_def obj_set_def isArray_def typeof_def
      own_props_def)

lemma nested_call:
  "(if has_own s ''hasOwnProperty'' then Inl TypeError else flatten_loop s [])
   = flattenTranslations s"
  by (simp add: flattenTranslations_def)

lemma map_of_obj_set:
  "map_of (obj_set k v obj) k' = (if k = k' \<and> k \<noteq> ''__proto__'' then Some v else map_of obj k')"
  by (simp add: obj_set_def AList.update_conv')

lemma fold_obj_set_other:
  "k \<notin> set (map (\<lambda>(x, fv). i @ ''.'' @ x) fl) \<Longrightarrow>
   map_of (fold (\<lambda>(x, fv). obj_set (i @ ''.'' @ x) fv) fl acc) k = map_of acc k"
  by (induction fl arbitrary: acc) (auto simp: map_of_obj_set)

lemma flatten_loop_untouched:
  "flatten_loop t acc = Inr r \<Longrightarrow> \<forall>e \<in> set t. \<not> writes_key k e \<Longrightarrow>
   map_of r k = map_of acc k"
proof (induction t arbitrary: acc)
  case Nil
  then show ?case by simp
next
  case (Cons e t)
  obtain i w where e: "e = (i, w)" by (cases e)
  from Cons.prems have nw: "\<not> writes_key k (i, w)" and rest: "\<forall>e \<in> set t. \<not> writes_key k e"
    by (simp_all add: e)
  show ?case
  proof (cases "isArray w \<or> typeof w \<noteq> ''object''")
    case True
    with nw have "i \<noteq> k" by (auto simp: writes_key_def split: if_splits)
    moreover from True Cons.prems(1) have "flatten_loop t (obj_set i w acc) = Inr r"
      by (auto simp: e split: if_splits)
    ultimately show ?thesis
      using Cons.IH [OF _ rest] by (simp add: map_of_obj_set)
  next
    case False
    with Cons.prems(1) obtain flatObject where
      fl: "flattenTranslations (own_props w) = Inr flatObject" and
      run: "flatten_loop t (fold (\<lambda>(x, fv). obj_set (i @ ''.'' @ x) fv) flatObject acc) = Inr r"
      by (auto simp: e nested_call split: sum.splits)
    from nw False fl have "k \<notin> set (map (\<lambda>(x, fv). i @ ''.'' @ x) flatObject)"
      by (simp add: writes_key_def)
    then have "map_of (fold (\<lambda>(x, fv). obj_set (i @ ''.'' @ x) fv) flatObject acc) k
        = map_of acc k"
      by (rule fold_obj_set_other)
    with Cons.IH [OF run rest] show ?thesis by simp
  qed
qed

lemma flatten_loop_append:
  "flatten_loop (xs @ ys) acc
   = (case flatten_loop xs acc of Inl e \<Rightarrow> Inl e | Inr a \<Rightarrow> flatten_loop ys a)"
proof (induction xs arbitrary: acc)
  case Nil
  then show ?case by simp
next
  case (Cons e xs)
  obtain i w where e: "e = (i, w)" by (cases e)
  show ?case unfolding e using Cons.IH by (simp split: sum.splits)
qed

lemma shadow_free_no_own: "shadow_free t \<Longrightarrow> \<not> has_own t ''hasOwnProperty''"
proof (induction t)
  case Nil
  then show ?case by (simp add: has_own_def)
next
  case (Cons e t)
  obtain i w where e: "e = (i, w)" by (cases e)
  with Cons show ?case by (auto simp: has_own_def)
qed

lemma shadow_free_completes: "shadow_free t \<Longrightarrow> \<exists>r. flatten_loop t acc = Inr r"
proof (induction t arbitrary: acc rule: shadow_free.induct)
  case 1
  then show ?case by simp
next
  case (2 i v rest)
  from "2.prems" have rest: "shadow_free rest" by simp
  show ?case
  proof (cases "\<not> isArray v \<and> typeof v = ''object''")
    case True
    with "2.prems" have sub: "shadow_free (own_props v)" by simp
    from "2.IH"(1) [OF True sub] obtain flatObject where
      "flatten_loop (own_props v) [] = Inr flatObject" by blast
    with True shadow_free_no_own [OF sub] "2.IH"(2) [OF rest] show ?thesis by simp
  next
    case False
    with "2.IH"(2) [OF rest] show ?thesis by auto
  qed
qed

lemma completes_shadow_free:
  "flatten_loop t acc = Inr r \<Longrightarrow> \<not> has_own t ''hasOwnProperty'' \<Longrightarrow> shadow_free t"
proof (induction t arbitrary: acc r rule: shadow_free.induct)
  case 1
  then show ?case by simp
next
  case (2 i v rest)
  from "2.prems"(2) have i: "i \<noteq> ''hasOwnProperty''"
    and rest: "\<not> has_own rest ''hasOwnProperty''"
    by (auto simp: has_own_def split: if_splits)
  show ?case
  proof (cases "\<not> isArray v \<and> typeof v = ''object''")
    case True
    with "2.prems"(1) obtain flatObject where
      ns: "\<not> has_own (own_props v) ''hasOwnProperty''" and
      fl: "flatten_loop (own_props v) [] = Inr flatObject" and
      run: "flatten_loop rest
              (fold (\<lambda>(x, fv). obj_set (i @ ''.'' @ x) fv) flatObject acc) = Inr r"
      by (auto split: sum.splits if_splits)
    from "2.IH"(1) [OF True fl ns] "2.IH"(2) [OF run rest] True i show ?thesis by simp
  next
    case False
    with "2.prems"(1) have "flatten_loop rest (obj_set i v acc) = Inr r"
      by (auto split: if_splits)
    from "2.IH"(2) [OF this rest] False i show ?thesis by auto
  qed
qed

text \<open>The flattening throws exactly when a visited object shadows \<open>hasOwnProperty\<close>.\<close>

lemma flatten_throws_iff:
  "flattenTranslations t = Inl TypeError \<longleftrightarrow> \<not> shadow_free t"
proof
  assume thr: "flattenTranslations t = Inl TypeError"
  show "\<not> shadow_free t"
  proof
    assume sf: "shadow_free t"
    from shadow_free_completes [OF sf, of "[]"] shadow_free_no_own [OF sf] thr
    show False by (auto simp: flattenTranslations_def)
  qed
next
  assume nsf: "\<not> shadow_free t"
  show "flattenTranslations t = Inl TypeError"
  proof (cases "has_own t ''hasOwnProperty''")
    case True
    then show ?thesis by (simp add: flattenTranslations_def)
  next
    case False
    with completes_shadow_free [of t "[]"] nsf
    have "\<forall>r. flatten_loop t [] \<noteq> Inr r" by blast
    then obtain e where "flatten_loop t [] = Inl e" by (cases "flatten_loop t []") auto
    then have "flatten_loop t [] = Inl TypeError" by (cases e) simp
    with False show ?thesis by (simp add: flattenTranslations_def)
  qed
qed

lemma shadow_free_append: "shadow_free (xs @ ys) \<longleftrightarrow> shadow_free xs \<and> shadow_free ys"
proof (induction xs)
  case Nil
  then show ?case by simp
next
  case (Cons e xs)
  obtain i w where e: "e = (i, w)" by (cases e)
  with Cons show ?case by auto
qed

text \<open>The flat result of a loop that completes never shadows \<open>hasOwnProperty\<close>.\<close>

lemma dotted_key_not_method: "i @ ''.'' @ x \<noteq> ''hasOwnProperty''"
proof
  assume eq: "i @ ''.'' @ x = ''hasOwnProperty''"
  have "CHR ''.'' \<in> set (i @ ''.'' @ x)" by simp
  then have "CHR ''.'' \<in> set ''hasOwnProperty''" unfolding eq .
  then show False by simp
qed

lemma fold_obj_set_no_shadow:
  "\<not> has_own acc ''hasOwnProperty'' \<Longrightarrow>
   \<not> has_own (fold (\<lambda>(x, fv). obj_set (i @ ''.'' @ x) fv) fl acc) ''hasOwnProperty''"
proof (induction fl arbitrary: acc)
  case Nil
  then show ?case by simp
next
  case (Cons p fl)
  obtain x fv where p: "p = (x, fv)" by (cases p)
  from Cons.prems dotted_key_not_method [of i x]
  have "\<not> has_own (obj_set (i @ ''.'' @ x) fv acc) ''hasOwnProperty''"
    by (simp add: has_own_def map_of_obj_set)
  from Cons.IH [OF this] show ?case by (simp add: p)
qed

lemma flatten_loop_no_shadow:
  "flatten_loop t acc = Inr r \<Longrightarrow> \<not> has_own t ''hasOwnProperty'' \<Longrightarrow>
   \<not> has_own acc ''hasOwnProperty'' \<Longrightarrow> \<not> has_own r ''hasOwnProperty''"
proof (induction t arbitrary: acc)
  case Nil
  then show ?case by simp
next
  case (Cons e t)
  obtain i w where e: "e = (i, w)" by (cases e)
  from Cons.prems(2) have i: "i \<noteq> ''hasOwnProperty''" and t: "\<not> has_own t ''hasOwnProperty''"
    by (auto simp: e has_own_def split: if_splits)
  show ?case
  proof (cases "isArray w \<or> typeof w \<noteq> ''object''")
    case True
    with Cons.prems(1) have "flatten_loop t (obj_set i w acc) = Inr r"
      by (auto simp: e split: if_splits)
    moreover from i Cons.prems(3) have "\<not> has_own (obj_set i w acc) ''hasOwnProperty''"
      by (simp add: has_own_def map_of_obj_set)
    ultimately show ?thesis using Cons.IH t by blast
  next
    case False
    with Cons.prems(1) obtain flatObject where
      run: "flatten_loop t (fold (\<lambda>(x, fv). obj_set (i @ ''.'' @ x) fv) flatObject acc) = Inr r"
      by (auto simp: e nested_call split: sum.splits)
    from Cons.IH [OF run t fold_obj_set_no_shadow [OF Cons.prems(3)]] show ?thesis .
  qed
qed

text \<open>
  C6, amended. Let no object that the flattening visits have an own property
  \<open>hasOwnProperty\<close>. Then the flattening completes, and an entry \<open>(k, v)\<close> of the tree
  whose key is not \<open>__proto__\<close> and whose value is a scalar other than \<open>null\<close> (not an
  array, and not of type \<open>object\<close>) is copied: the flat result maps \<open>k\<close> to \<open>v\<close> when no
  later entry of the tree assigns to \<open>k\<close>.
\<close>

theorem flatten_keeps_scalar:
  assumes "shadow_free (pre @ (k, v) # post)"
    and "k \<noteq> ''__proto__''"
    and "\<not> isArray v" and "typeof v \<noteq> ''object''"
    and "\<forall>e \<in> set post. \<not> writes_key k e"
  shows "\<exists>flat. flattenTranslations (pre @ (k, v) # post) = Inr flat \<and> map_of flat k = Some v"
proof -
  from assms(1) have sp: "shadow_free pre" and spost: "shadow_free post"
    by (simp_all add: shadow_free_append)
  from shadow_free_completes [OF sp] obtain a where a: "flatten_loop pre [] = Inr a"
    by blast
  from shadow_free_completes [OF spost] obtain r where
    r: "flatten_loop post (obj_set k v a) = Inr r" by blast
  from a r assms(3,4) have run: "flatten_loop (pre @ (k, v) # post) [] = Inr r"
    by (simp add: flatten_loop_append)
  from flatten_loop_untouched [OF r assms(5)] assms(2) have "map_of r k = Some v"
    by (simp add: map_of_obj_set)
  with run shadow_free_no_own [OF assms(1)] show ?thesis
    by (simp add: flattenTranslations_def)
qed

theorem flatten_keeps_scalar_witness:
  "shadow_free ([(''a'', JStr ''x'')] @ (''n'', JNum (int_num 3))
                 # [(''b'', JObj [(''c'', JStr ''y'')])])
   \<and> ''n'' \<noteq> ''__proto__''
   \<and> \<not> isArray (JNum (int_num 3)) \<and> typeof (JNum (int_num 3)) \<noteq> ''object''
   \<and> \<not> writes_key ''n'' (''b'', JObj [(''c'', JStr ''y'')])
   \<and> (\<exists>flat. flattenTranslations
        ([(''a'', JStr ''x'')] @ (''n'', JNum (int_num 3)) # [(''b'', JObj [(''c'', JStr ''y'')])])
        = Inr flat \<and> map_of flat ''n'' = Some (JNum (int_num 3)))"
proof -
  have s: "shadow_free ([(''a'', JStr ''x'')] @ (''n'', JNum (int_num 3))
                 # [(''b'', JObj [(''c'', JStr ''y'')])])"
    by (simp add: isArray_def typeof_def own_props_def)
  have n: "''n'' \<noteq> ''__proto__''" by simp
  have a: "\<not> isArray (JNum (int_num 3))" by (simp add: isArray_def)
  have b: "typeof (JNum (int_num 3)) \<noteq> ''object''" by (simp add: typeof_def)
  have c: "\<forall>e \<in> set [(''b'', JObj [(''c'', JStr ''y'')])]. \<not> writes_key ''n'' e"
    by (simp add: writes_key_def isArray_def typeof_def own_props_def flattenTranslations_def
        has_own_def obj_set_def)
  from flatten_keeps_scalar [OF s n a b c] s n a b c
  show ?thesis by simp
qed

end
